theory Spec2Isabelle
  imports Complex_Main
begin

section \<open>JavaScript numbers\<close>

text \<open>
  Every coordinate, size and page number of \<^verbatim>\<open>PdfViewerScreen.tsx\<close> is a JavaScript
  \<^verbatim>\<open>number\<close>. A finite value is modelled by the real it denotes, and the three special
  values the arithmetic of the screen can produce are kept: the two infinities and NaN.
  The rounding of each operation to the nearest double and the overflow to an infinity
  are not modelled, so a comparison that the last bit of a product or a quotient decides
  is outside the model; the results below do not depend on one. The sign of a zero is
  not modelled; every zero divisor of the screen is a \<^verbatim>\<open>+0\<close>.
\<close>

datatype number = Fin real | PInf | NInf | NaN

fun js_add :: "number \<Rightarrow> number \<Rightarrow> number" where
  "js_add (Fin a) (Fin b) = Fin (a + b)"
| "js_add NaN _ = NaN"
| "js_add _ NaN = NaN"
| "js_add PInf NInf = NaN"
| "js_add NInf PInf = NaN"
| "js_add PInf _ = PInf"
| "js_add _ PInf = PInf"
| "js_add NInf _ = NInf"
| "js_add _ NInf = NInf"

fun js_sub :: "number \<Rightarrow> number \<Rightarrow> number" where
  "js_sub (Fin a) (Fin b) = Fin (a - b)"
| "js_sub NaN _ = NaN"
| "js_sub _ NaN = NaN"
| "js_sub PInf PInf = NaN"
| "js_sub NInf NInf = NaN"
| "js_sub PInf _ = PInf"
| "js_sub _ PInf = NInf"
| "js_sub NInf _ = NInf"
| "js_sub _ NInf = PInf"

fun js_mul :: "number \<Rightarrow> number \<Rightarrow> number" where
  "js_mul (Fin a) (Fin b) = Fin (a * b)"
| "js_mul NaN _ = NaN"
| "js_mul _ NaN = NaN"
| "js_mul (Fin a) PInf = (if a = 0 then NaN else if 0 < a then PInf else NInf)"
| "js_mul (Fin a) NInf = (if a = 0 then NaN else if 0 < a then NInf else PInf)"
| "js_mul PInf (Fin b) = (if b = 0 then NaN else if 0 < b then PInf else NInf)"
| "js_mul NInf (Fin b) = (if b = 0 then NaN else if 0 < b then NInf else PInf)"
| "js_mul PInf PInf = PInf"
| "js_mul PInf NInf = NInf"
| "js_mul NInf PInf = NInf"
| "js_mul NInf NInf = PInf"

fun js_div :: "number \<Rightarrow> number \<Rightarrow> number" where
  "js_div (Fin a) (Fin b) =
     (if b \<noteq> 0 then Fin (a / b) else if a = 0 then NaN else if 0 < a then PInf else NInf)"
| "js_div NaN _ = NaN"
| "js_div _ NaN = NaN"
| "js_div (Fin a) PInf = Fin 0"
| "js_div (Fin a) NInf = Fin 0"
| "js_div PInf (Fin b) = (if 0 \<le> b then PInf else NInf)"
| "js_div NInf (Fin b) = (if 0 \<le> b then NInf else PInf)"
| "js_div PInf PInf = NaN"
| "js_div PInf NInf = NaN"
| "js_div NInf PInf = NaN"
| "js_div NInf NInf = NaN"

fun js_lt :: "number \<Rightarrow> number \<Rightarrow> bool" where
  "js_lt (Fin a) (Fin b) = (a < b)"
| "js_lt NaN _ = False"
| "js_lt _ NaN = False"
| "js_lt PInf _ = False"
| "js_lt _ NInf = False"
| "js_lt NInf _ = True"
| "js_lt _ PInf = True"

definition js_gt :: "number \<Rightarrow> number \<Rightarrow> bool" where
  "js_gt a b = js_lt b a"

definition js_ge :: "number \<Rightarrow> number \<Rightarrow> bool" where
  "js_ge a b = (a \<noteq> NaN \<and> b \<noteq> NaN \<and> \<not> js_lt a b)"

definition js_eq :: "number \<Rightarrow> number \<Rightarrow> bool" where
  \<comment> \<open>\<^verbatim>\<open>a === b\<close> on numbers: NaN equals nothing, itself included.\<close>
  "js_eq a b = (a = b \<and> a \<noteq> NaN)"

definition js_neq :: "number \<Rightarrow> number \<Rightarrow> bool" where
  \<comment> \<open>\<^verbatim>\<open>a !== b\<close>\<close>
  "js_neq a b = (\<not> js_eq a b)"

definition array_includes :: "number list \<Rightarrow> number \<Rightarrow> bool" where
  \<comment> \<open>\<^verbatim>\<open>Array.prototype.includes\<close> compares by SameValueZero, under which NaN is found.\<close>
  "array_includes xs a = (a \<in> set xs)"

definition isNaN :: "number \<Rightarrow> bool" where
  "isNaN a = (a = NaN)"

definition truthy :: "number \<Rightarrow> bool" where
  \<comment> \<open>A number is falsy when it is zero or NaN.\<close>
  "truthy a = (a \<noteq> Fin 0 \<and> a \<noteq> NaN)"

definition js_or :: "number option \<Rightarrow> number \<Rightarrow> number" where
  \<comment> \<open>\<^verbatim>\<open>field || rest\<close> where the field may be absent (\<^verbatim>\<open>undefined\<close>, falsy) and the
      rest is a number.\<close>
  "js_or field rest = (case field of None \<Rightarrow> rest | Some a \<Rightarrow> if truthy a then a else rest)"

definition min2 :: "number \<Rightarrow> number \<Rightarrow> number" where
  "min2 a b = (if a = NaN \<or> b = NaN then NaN else if js_lt b a then b else a)"

definition max2 :: "number \<Rightarrow> number \<Rightarrow> number" where
  "max2 a b = (if a = NaN \<or> b = NaN then NaN else if js_lt a b then b else a)"

definition Math_min :: "number list \<Rightarrow> number" where
  \<comment> \<open>\<^verbatim>\<open>Math.min(...xs)\<close>: \<^verbatim>\<open>Infinity\<close> for no argument, NaN as soon as one argument is.\<close>
  "Math_min xs = foldl min2 PInf xs"

definition Math_max :: "number list \<Rightarrow> number" where
  "Math_max xs = foldl max2 NInf xs"

section \<open>Strings\<close>

text \<open>
  Strings are lists of characters. Of the white space that \<^verbatim>\<open>trim\<close>, \<^verbatim>\<open>\s\<close> and the
  number parsers skip, the ASCII part is modelled.
\<close>

definition isWhiteSpace :: "char \<Rightarrow> bool" where
  "isWhiteSpace c = (c \<in> set [CHR '' '', CHR 0x09, CHR 0x0A, CHR 0x0B, CHR 0x0C, CHR 0x0D])"

definition isDigit :: "char \<Rightarrow> bool" where
  "isDigit c = (c \<in> set ''0123456789'')"

definition digitValue :: "char \<Rightarrow> nat" where
  "digitValue c = of_char c - 48"

definition digitsValue :: "string \<Rightarrow> nat" where
  "digitsValue ds = foldl (\<lambda>a c. 10 * a + digitValue c) 0 ds"

definition trim :: "string \<Rightarrow> string" where
  "trim s = rev (dropWhile isWhiteSpace (rev (dropWhile isWhiteSpace s)))"

definition isSeparator :: "char \<Rightarrow> bool" where
  \<comment> \<open>The character class \<^verbatim>\<open>[\s,]\<close>.\<close>
  "isSeparator c = (isWhiteSpace c \<or> c = CHR '','')"

fun split_run :: "bool \<Rightarrow> string \<Rightarrow> string \<Rightarrow> string list" where
  "split_run inSep cur [] = [rev cur]"
| "split_run inSep cur (c # cs) =
     (if isSeparator c
      then (if inSep then split_run True cur cs else rev cur # split_run True [] cs)
      else split_run False (c # cur) cs)"

definition split_separators :: "string \<Rightarrow> string list" where
  \<comment> \<open>\<^verbatim>\<open>s.split(/[\s,]+/)\<close>: the pieces between the maximal runs of separators; a
      separator at either end leaves an empty piece there, and the empty string gives
      one empty piece.\<close>
  "split_separators s = split_run False [] s"

definition signOf :: "string \<Rightarrow> bool \<times> string" where
  \<comment> \<open>An optional sign: whether it is a minus, and what follows it.\<close>
  "signOf s =
     (case s of
        [] \<Rightarrow> (False, s)
      | c # cs \<Rightarrow> if c = CHR ''-'' then (True, cs) else if c = CHR ''+'' then (False, cs) else (False, s))"

definition exponentPart :: "string \<Rightarrow> int" where
  \<comment> \<open>\<^verbatim>\<open>e\<close> or \<^verbatim>\<open>E\<close>, an optional sign and digits; anything else is no exponent.\<close>
  "exponentPart s =
     (case s of
        [] \<Rightarrow> 0
      | c # cs \<Rightarrow>
          if c = CHR ''e'' \<or> c = CHR ''E''
          then (let (neg, ds) = signOf cs; digits = takeWhile isDigit ds
                in if digits = [] then 0
                   else if neg then - int (digitsValue digits) else int (digitsValue digits))
          else 0)"

definition parseFloat :: "string \<Rightarrow> number" where
  \<comment> \<open>The value of the longest prefix that is a decimal literal (after leading white
      space), NaN when there is none. The value is the decimal itself, not the double
      nearest to it.\<close>
  "parseFloat input =
     (let (neg, s) = signOf (dropWhile isWhiteSpace input)
      in if take 8 s = ''Infinity'' then (if neg then NInf else PInf)
         else
           (let ip = takeWhile isDigit s;
                r1 = dropWhile isDigit s;
                dot = (r1 \<noteq> [] \<and> hd r1 = CHR ''.'');
                fp = (if dot then takeWhile isDigit (tl r1) else []);
                r2 = (if dot then dropWhile isDigit (tl r1) else r1)
            in if ip = [] \<and> fp = [] then NaN
               else
                 (let m = real (digitsValue ip) + real (digitsValue fp) / 10 ^ length fp;
                      e = exponentPart r2;
                      v = (if 0 \<le> e then m * 10 ^ nat e else m / 10 ^ nat (- e))
                  in Fin (if neg then - v else v))))"

definition parseInt10 :: "string \<Rightarrow> number" where
  \<comment> \<open>\<^verbatim>\<open>parseInt(s, 10)\<close>: the leading decimal digits after white space and a sign.\<close>
  "parseInt10 input =
     (let (neg, s) = signOf (dropWhile isWhiteSpace input);
          digits = takeWhile isDigit s
      in if digits = [] then NaN
         else Fin (if neg then - real (digitsValue digits) else real (digitsValue digits)))"

fun join :: "string \<Rightarrow> string list \<Rightarrow> string" where
  "join sep [] = []"
| "join sep [t] = t"
| "join sep (t # u # us) = t @ sep @ join sep (u # us)"

section \<open>Data model\<close>

text \<open>
  The records follow the types of the screen and of the recognizer's result. Field names
  carry the record's name where two records share a field name (\<^verbatim>\<open>x\<close>, \<^verbatim>\<open>width\<close>,
  \<^verbatim>\<open>text\<close>). A block always has its array of lines and a line its array of elements, as
  the recognizer declares them; the frame of an element may be absent.
\<close>

record Point =
  point_x :: number
  point_y :: number

record DrawPath =
  path :: string
  page :: number

record IntersectingElement =
  blockIndex :: nat
  lineIndex :: nat
  elementIndex :: nat

text \<open>
  A frame is read as \<^verbatim>\<open>any\<close>: each of the eight fields the screen looks at may be
  absent.
\<close>

record Frame =
  frame_left :: "number option"
  frame_top :: "number option"
  frame_x :: "number option"
  frame_y :: "number option"
  frame_width :: "number option"
  frame_height :: "number option"
  frame_right :: "number option"
  frame_bottom :: "number option"

record TextElement =
  element_text :: string
  element_frame :: "Frame option"

record TextLine =
  elements :: "TextElement list"

record TextBlock =
  lines :: "TextLine list"

record TextRecognitionResult =
  blocks :: "TextBlock list"

record Rect =
  rect_x :: number
  rect_y :: number
  rect_width :: number
  rect_height :: number

record ViewLayout =
  layout_width :: number
  layout_height :: number
  layout_x :: number
  layout_y :: number

record ImageSize =
  image_width :: number
  image_height :: number

text \<open>The state variables of the component (\<^verbatim>\<open>useState\<close>), one field each.\<close>

record State =
  currentPage :: number
  initialPage :: number
  totalPages :: number
  isProcessing :: bool
  ocrComplete :: bool
  isDrawingEnabled :: bool
  isDrawing :: bool
  currentPath :: string
  paths :: "DrawPath list"
  ocrResult :: "TextRecognitionResult option"
  selectedText :: "string option"
  intersectingElements :: "IntersectingElement list"
  analyzedPages :: "number list"
  pageImageUri :: "string option"
  viewLayout :: ViewLayout
  imageSize :: ImageSize

definition initialState :: "number \<Rightarrow> number \<Rightarrow> State" where
  \<comment> \<open>The initial values; the two arguments are the window's width and height.\<close>
  "initialState windowWidth windowHeight =
     \<lparr> currentPage = Fin 1, initialPage = Fin 1, totalPages = Fin 0,
       isProcessing = False, ocrComplete = False,
       isDrawingEnabled = False, isDrawing = False, currentPath = [], paths = [],
       ocrResult = None, selectedText = None, intersectingElements = [],
       analyzedPages = [], pageImageUri = None,
       viewLayout = \<lparr> layout_width = windowWidth, layout_height = windowHeight,
                      layout_x = Fin 0, layout_y = Fin 0 \<rparr>,
       imageSize = \<lparr> image_width = Fin 0, image_height = Fin 0 \<rparr> \<rparr>"

section \<open>Path geometry parser\<close>

text \<open>
  \<^verbatim>\<open>parseSvgPath\<close> walks the pieces by index. At an \<^verbatim>\<open>M\<close> or \<^verbatim>\<open>L\<close> with two more
  pieces after it, it reads them as coordinates, keeps the point when neither is NaN, and
  skips them either way; everywhere else it moves on by one piece.
\<close>

fun parseParts :: "string list \<Rightarrow> Point list" where
  "parseParts (part # a # b # rest) =
     (if part = ''M'' \<or> part = ''L''
      then (let x = parseFloat a; y = parseFloat b
            in (if \<not> isNaN x \<and> \<not> isNaN y then [\<lparr> point_x = x, point_y = y \<rparr>] else [])
               @ parseParts rest)
      else parseParts (a # b # rest))"
| "parseParts (part # rest) = parseParts rest"
| "parseParts [] = []"

definition parseSvgPath :: "string \<Rightarrow> Point list" where
  "parseSvgPath pathString = parseParts (split_separators (trim pathString))"

section \<open>Coordinate mapper\<close>

definition mapCoordinates ::
  "ViewLayout \<Rightarrow> ImageSize \<Rightarrow> number \<Rightarrow> number \<Rightarrow> number \<Rightarrow> number \<Rightarrow> Rect" where
  "mapCoordinates layout img x y width height =
     (let scaleX = js_div (layout_width layout) (image_width img);
          scaleY = js_div (layout_height layout) (image_height img)
      in \<lparr> rect_x = js_mul x scaleX, rect_y = js_mul y scaleY,
           rect_width = js_mul width scaleX, rect_height = js_mul height scaleY \<rparr>)"

section \<open>Overlap selection engine\<close>

definition calculateOverlapArea :: "Point list \<Rightarrow> Point list \<Rightarrow> number" where
  "calculateOverlapArea wordPoints pathPoints =
     (let pathMinX = Math_min (map point_x pathPoints);
          pathMaxX = Math_max (map point_x pathPoints);
          pathMinY = Math_min (map point_y pathPoints);
          pathMaxY = Math_max (map point_y pathPoints);
          wordMinX = Math_min (map point_x wordPoints);
          wordMaxX = Math_max (map point_x wordPoints);
          wordMinY = Math_min (map point_y wordPoints);
          wordMaxY = Math_max (map point_y wordPoints);
          overlapMinX = Math_max [pathMinX, wordMinX];
          overlapMaxX = Math_min [pathMaxX, wordMaxX];
          overlapMinY = Math_max [pathMinY, wordMinY];
          overlapMaxY = Math_min [pathMaxY, wordMaxY]
      in if js_lt overlapMaxX overlapMinX \<or> js_lt overlapMaxY overlapMinY then Fin 0
         else
           (let overlapWidth = js_sub overlapMaxX overlapMinX;
                overlapHeight = js_sub overlapMaxY overlapMinY;
                overlapArea = js_mul overlapWidth overlapHeight;
                wordWidth = js_sub wordMaxX wordMinX;
                wordHeight = js_sub wordMaxY wordMinY;
                wordArea = js_mul wordWidth wordHeight
            in js_mul (js_div overlapArea wordArea) (Fin 100)))"

definition OVERLAP_THRESHOLD :: number where
  "OVERLAP_THRESHOLD = Fin 40"

definition normalizeFrame :: "Frame \<Rightarrow> number \<times> number \<times> number \<times> number" where
  \<comment> \<open>The four constants \<^verbatim>\<open>x\<close>, \<^verbatim>\<open>y\<close>, \<^verbatim>\<open>width\<close>, \<^verbatim>\<open>height\<close> read off a frame.\<close>
  "normalizeFrame frame =
     (let x = js_or (frame_left frame) (js_or (frame_x frame) (Fin 0));
          y = js_or (frame_top frame) (js_or (frame_y frame) (Fin 0));
          width = js_or (frame_width frame)
                    (case frame_right frame of
                       None \<Rightarrow> Fin 0
                     | Some r \<Rightarrow> if truthy r then js_sub r x else Fin 0);
          height = js_or (frame_height frame)
                     (case frame_bottom frame of
                        None \<Rightarrow> Fin 0
                      | Some b \<Rightarrow> if truthy b then js_sub b y else Fin 0)
      in (x, y, width, height))"

definition mappedFrame :: "ViewLayout \<Rightarrow> ImageSize \<Rightarrow> Frame \<Rightarrow> Rect" where
  \<comment> \<open>\<^verbatim>\<open>mappedCoords\<close> of an element's frame.\<close>
  "mappedFrame layout img frame =
     (case normalizeFrame frame of (x, y, width, height) \<Rightarrow>
        mapCoordinates layout img x y width height)"

definition wordPointsOf :: "Rect \<Rightarrow> Point list" where
  \<comment> \<open>The word's four corner points.\<close>
  "wordPointsOf mappedCoords =
     [ \<lparr> point_x = rect_x mappedCoords, point_y = rect_y mappedCoords \<rparr>,
       \<lparr> point_x = js_add (rect_x mappedCoords) (rect_width mappedCoords),
         point_y = rect_y mappedCoords \<rparr>,
       \<lparr> point_x = rect_x mappedCoords,
         point_y = js_add (rect_y mappedCoords) (rect_height mappedCoords) \<rparr>,
       \<lparr> point_x = js_add (rect_x mappedCoords) (rect_width mappedCoords),
         point_y = js_add (rect_y mappedCoords) (rect_height mappedCoords) \<rparr> ]"

definition elementSelected :: "ViewLayout \<Rightarrow> ImageSize \<Rightarrow> Point list \<Rightarrow> TextElement \<Rightarrow> bool" where
  \<comment> \<open>The body of the innermost \<^verbatim>\<open>forEach\<close>: whether the element is pushed.\<close>
  "elementSelected layout img pathPoints element =
     (case element_frame element of
        None \<Rightarrow> False
      | Some frame \<Rightarrow>
          (let overlapPercentage =
                 calculateOverlapArea (wordPointsOf (mappedFrame layout img frame)) pathPoints
           in js_ge overlapPercentage OVERLAP_THRESHOLD))"

definition lineElements ::
  "(TextElement \<Rightarrow> bool) \<Rightarrow> nat \<Rightarrow> nat \<Rightarrow> TextLine \<Rightarrow> IntersectingElement list" where
  "lineElements sel bi li line =
     map (\<lambda>(ei, element). \<lparr> blockIndex = bi, lineIndex = li, elementIndex = ei \<rparr>)
       (filter (\<lambda>(ei, element). sel element) (enumerate 0 (elements line)))"

definition blockElements ::
  "(TextElement \<Rightarrow> bool) \<Rightarrow> nat \<Rightarrow> TextBlock \<Rightarrow> IntersectingElement list" where
  "blockElements sel bi block =
     concat (map (\<lambda>(li, line). lineElements sel bi li line) (enumerate 0 (lines block)))"

definition resultElements ::
  "(TextElement \<Rightarrow> bool) \<Rightarrow> TextRecognitionResult \<Rightarrow> IntersectingElement list" where
  \<comment> \<open>The three nested \<^verbatim>\<open>forEach\<close> loops: the pushes in the order they happen.\<close>
  "resultElements sel result =
     concat (map (\<lambda>(bi, block). blockElements sel bi block) (enumerate 0 (blocks result)))"

definition elementTextAt :: "TextRecognitionResult \<Rightarrow> IntersectingElement \<Rightarrow> string option" where
  \<comment> \<open>\<^verbatim>\<open>blocks[blockIndex].lines?.[lineIndex].elements?.[elementIndex].text || ""\<close>;
      an index out of range reads \<^verbatim>\<open>undefined\<close> and the next property access throws
      (\<open>None\<close>).\<close>
  "elementTextAt result e =
     (if blockIndex e < length (blocks result)
      then (let block = blocks result ! blockIndex e
            in if lineIndex e < length (lines block)
               then (let line = lines block ! lineIndex e
                     in if elementIndex e < length (elements line)
                        then Some (element_text (elements line ! elementIndex e))
                        else None)
               else None)
      else None)"

datatype completion = Normal | TypeError

text \<open>
  A callback of the component reads the state variables of the render that created it
  and queues its updates. \<open>findIntersectingBlocks closure pathString s\<close> reads
  \<^verbatim>\<open>ocrResult\<close>, \<^verbatim>\<open>viewLayout\<close> and \<^verbatim>\<open>imageSize\<close> from \<open>closure\<close> and applies the
  updates to \<open>s\<close>; it returns how the call completed with the updated state.
\<close>

definition findIntersectingBlocks :: "State \<Rightarrow> string \<Rightarrow> State \<Rightarrow> completion \<times> State" where
  "findIntersectingBlocks closure pathString s =
     (case ocrResult closure of
        None \<Rightarrow> (Normal, s)
      | Some result \<Rightarrow>
          (let pathPoints = parseSvgPath pathString
           in if length pathPoints < 2 then (Normal, s)
              else
                (let elems = resultElements
                       (elementSelected (viewLayout closure) (imageSize closure) pathPoints) result;
                     s1 = s\<lparr> intersectingElements := elems \<rparr>
                 in if 0 < length elems
                    then (case those (map (elementTextAt result) elems) of
                            None \<Rightarrow> (TypeError, s1)
                          | Some texts \<Rightarrow>
                              (let selectedTexts = filter (\<lambda>t. 0 < length t) texts
                               in if 0 < length selectedTexts
                                  then (Normal, s1\<lparr> selectedText := Some (join '' '' selectedTexts) \<rparr>)
                                  else (Normal, s1)))
                    else (Normal, s1))))"

section \<open>Page analysis cycle\<close>

text \<open>
  \<^verbatim>\<open>performOCR\<close> is asynchronous. Its guards and first updates run in the call itself;
  it then waits for the capture (after the settle delay), for the image size and for
  the recognizer, and ends in its \<^verbatim>\<open>finally\<close> block. Each part is a function of the
  state at the time it runs; the parts after a wait still read the variables the call
  closed over (\<open>closure\<close>).
\<close>

definition performOCR_finally :: "State \<Rightarrow> State" where
  "performOCR_finally s = s\<lparr> isProcessing := False, ocrComplete := True \<rparr>"

definition performOCR :: "State \<Rightarrow> bool \<Rightarrow> State \<Rightarrow> State \<times> State option" where
  \<comment> \<open>The call up to its first wait. \<open>viewMounted\<close> is whether \<^verbatim>\<open>pdfViewRef.current\<close> is
      set. The result is the updated state and, when the call is now waiting, the
      closure it carries (\<open>None\<close> when it returned or already ran its \<^verbatim>\<open>finally\<close>).\<close>
  "performOCR closure viewMounted s =
     (if array_includes (analyzedPages closure) (currentPage closure) \<and> \<not> isDrawingEnabled closure
      then (s, None)
      else if isProcessing closure then (s, None)
      else
        (let s1 = s\<lparr> isProcessing := True, ocrResult := None, selectedText := None,
                      ocrComplete := False, intersectingElements := [] \<rparr>
         in if \<not> viewMounted then (performOCR_finally s1, None)
            else (s1, Some closure)))"

definition performOCR_captured :: "string \<Rightarrow> State \<Rightarrow> State" where
  "performOCR_captured fullImageUri s = s\<lparr> pageImageUri := Some fullImageUri \<rparr>"

definition performOCR_measured :: "number \<Rightarrow> number \<Rightarrow> State \<Rightarrow> State" where
  "performOCR_measured width height s =
     s\<lparr> imageSize := \<lparr> image_width = width, image_height = height \<rparr> \<rparr>"

definition pathsOnPage :: "number \<Rightarrow> DrawPath list \<Rightarrow> DrawPath list" where
  \<comment> \<open>\<^verbatim>\<open>paths.filter(path => path.page === currentPage)\<close>\<close>
  "pathsOnPage p ps = filter (\<lambda>d. js_eq (page d) p) ps"

definition pathsOffPage :: "number \<Rightarrow> DrawPath list \<Rightarrow> DrawPath list" where
  \<comment> \<open>\<^verbatim>\<open>prevPaths.filter(path => path.page !== currentPage)\<close>\<close>
  "pathsOffPage p ps = filter (\<lambda>d. js_neq (page d) p) ps"

definition performOCR_recognized :: "State \<Rightarrow> TextRecognitionResult option \<Rightarrow> State \<Rightarrow> State" where
  \<comment> \<open>From the recognizer's answer to the end of the call. A \<^verbatim>\<open>TypeError\<close> out of
      \<^verbatim>\<open>findIntersectingBlocks\<close> is caught and reported; the updates made before it
      stand.\<close>
  "performOCR_recognized closure result s =
     performOCR_finally
       (case result of
          None \<Rightarrow> s
        | Some r \<Rightarrow>
            (let s1 = s\<lparr> ocrResult := Some r,
                          analyzedPages := analyzedPages s @ [currentPage closure] \<rparr>;
                 pathsOnCurrentPage = pathsOnPage (currentPage closure) (paths closure)
             in if 0 < length pathsOnCurrentPage
                then snd (findIntersectingBlocks closure (path (last pathsOnCurrentPage)) s1)
                else s1))"

section \<open>Selection session state\<close>

text \<open>
  An event handler runs against the latest render: it reads the state \<open>s\<close> and returns
  the state after its queued updates.
\<close>

definition handleLayoutChange :: "number \<Rightarrow> number \<Rightarrow> number \<Rightarrow> number \<Rightarrow> State \<Rightarrow> State" where
  "handleLayoutChange width height x y s =
     s\<lparr> viewLayout := \<lparr> layout_width = width, layout_height = height,
                         layout_x = x, layout_y = y \<rparr> \<rparr>"

definition toggleDrawingMode :: "bool \<Rightarrow> State \<Rightarrow> State \<times> State option" where
  "toggleDrawingMode viewMounted s =
     (let newDrawingEnabled = (\<not> isDrawingEnabled s);
          s1 = s\<lparr> isDrawingEnabled := newDrawingEnabled \<rparr>
      in if \<not> newDrawingEnabled then (s1\<lparr> isDrawing := False, currentPath := [] \<rparr>, None)
         else if newDrawingEnabled \<and> \<not> isProcessing s
         then performOCR s viewMounted
                (s1\<lparr> ocrResult := None, selectedText := None, ocrComplete := False,
                     intersectingElements := [],
                     analyzedPages := filter (\<lambda>p. js_neq p (currentPage s)) (analyzedPages s1) \<rparr>)
         else (s1, None))"

text \<open>
  The touch handlers put the coordinates into the path string by a template literal;
  \<open>locationX\<close> and \<open>locationY\<close> are the texts the literal renders them to.
\<close>

definition handleTouchStart :: "string \<Rightarrow> string \<Rightarrow> State \<Rightarrow> State" where
  "handleTouchStart locationX locationY s =
     (if \<not> isDrawingEnabled s then s
      else s\<lparr> isDrawing := True, currentPath := ''M '' @ locationX @ '' '' @ locationY \<rparr>)"

definition handleTouchMove :: "string \<Rightarrow> string \<Rightarrow> State \<Rightarrow> State" where
  "handleTouchMove locationX locationY s =
     (if \<not> isDrawingEnabled s \<or> \<not> isDrawing s then s
      else s\<lparr> currentPath := currentPath s @ '' L '' @ locationX @ '' '' @ locationY \<rparr>)"

definition handleTouchEnd :: "State \<Rightarrow> State" where
  "handleTouchEnd s =
     (if \<not> isDrawingEnabled s \<or> \<not> isDrawing s then s
      else
        (let s1 = s\<lparr> isDrawing := False \<rparr>
         in if currentPath s \<noteq> []
            then
              (let newPath = \<lparr> path = currentPath s, page = currentPage s \<rparr>;
                   s2 = s1\<lparr> paths := pathsOffPage (currentPage s) (paths s1) @ [newPath] \<rparr>
               in if ocrComplete s \<and> ocrResult s \<noteq> None
                  then (case findIntersectingBlocks s (currentPath s) s2 of
                          (Normal, s3) \<Rightarrow> s3\<lparr> currentPath := [] \<rparr>
                        | (TypeError, s3) \<Rightarrow> s3\<lparr> isDrawing := False, currentPath := [] \<rparr>)
                  else s2\<lparr> currentPath := [] \<rparr>)
            else s1\<lparr> currentPath := [] \<rparr>))"

definition handleTextSelection :: "string \<Rightarrow> State \<Rightarrow> State" where
  "handleTextSelection t s = s\<lparr> selectedText := Some t \<rparr>"

definition clearAll :: "State \<Rightarrow> State" where
  "clearAll s =
     s\<lparr> ocrResult := None, selectedText := None, ocrComplete := False,
        pageImageUri := None, paths := [], currentPath := [],
        intersectingElements := [],
        analyzedPages := filter (\<lambda>p. js_neq p (currentPage s)) (analyzedPages s) \<rparr>"

definition clearCurrentDrawing :: "State \<Rightarrow> State" where
  "clearCurrentDrawing s =
     s\<lparr> paths := pathsOffPage (currentPage s) (paths s), currentPath := [],
        intersectingElements := [], selectedText := None \<rparr>"

definition handleCloseTextPanel :: "State \<Rightarrow> State" where
  "handleCloseTextPanel s = s\<lparr> selectedText := None, paths := [], intersectingElements := [] \<rparr>"

definition handlePageChange :: "number \<Rightarrow> number \<Rightarrow> State \<Rightarrow> State" where
  \<comment> \<open>The page and the path are also written to the key-value storage, which is no
      part of the component's state.\<close>
  "handlePageChange newPage noOfPages s =
     s\<lparr> currentPage := newPage,
        totalPages := (if js_neq (totalPages s) noOfPages then noOfPages else totalPages s) \<rparr>"

datatype 'a settled = Fulfilled 'a | Rejected

definition loadLastViewedPage ::
  "string \<Rightarrow> string option settled \<Rightarrow> string option settled \<Rightarrow> State \<Rightarrow> State" where
  \<comment> \<open>\<open>savedPdfPath\<close> and \<open>lastViewedPage\<close> are what the two \<^verbatim>\<open>getItem\<close> calls settle
      to (\<open>None\<close> is \<^verbatim>\<open>null\<close>); a rejection is caught and logged.\<close>
  "loadLastViewedPage pdfPath savedPdfPath lastViewedPage s =
     (case savedPdfPath of
        Rejected \<Rightarrow> s
      | Fulfilled saved \<Rightarrow>
          (case lastViewedPage of
             Rejected \<Rightarrow> s
           | Fulfilled None \<Rightarrow> s
           | Fulfilled (Some lastViewed) \<Rightarrow>
               if saved = Some pdfPath \<and> lastViewed \<noteq> []
               then (let p = parseInt10 lastViewed
                     in s\<lparr> currentPage := p, initialPage := p \<rparr>)
               else s))"

definition analysisEffect :: "bool \<Rightarrow> State \<Rightarrow> State \<times> State option" where
  \<comment> \<open>The effect that starts the analysis of a page not yet analyzed.\<close>
  "analysisEffect viewMounted s =
     (if isDrawingEnabled s \<and> \<not> array_includes (analyzedPages s) (currentPage s)
         \<and> \<not> isProcessing s \<and> js_gt (totalPages s) (Fin 0)
      then performOCR s viewMounted s
      else (s, None))"

section \<open>The component as a transition system\<close>

text \<open>
  The component's state, the analysis calls that are waiting (each with its closure and
  what it waits for) and the document it was opened on. Events are handled one at a
  time.
\<close>

datatype Phase = Capturing | Measuring | Recognizing

record Cycle =
  cycle_closure :: State
  cycle_phase :: Phase

record System = 
  app :: State
  cycles :: "Cycle list"
  pdfPath :: string

datatype Progress =
    Captured string
  | Measured number number
  | Recognized "TextRecognitionResult option"
  | Failed

datatype Event =
    LayoutChange number number number number
  | ToggleDrawingMode bool
  | TouchStart string string
  | TouchMove string string
  | TouchEnd
  | AnalysisEffect bool
  | TextSelection string
  | ClearAll
  | ClearCurrentDrawing
  | CloseTextPanel
  | PageChange number number
  | LastViewedPageLoaded "string option settled" "string option settled"
  | Resume nat Progress

definition started :: "System \<Rightarrow> State \<times> State option \<Rightarrow> System" where
  \<comment> \<open>The system after a handler that may have left an analysis call waiting.\<close>
  "started sys r =
     (case r of
        (s, None) \<Rightarrow> sys\<lparr> app := s \<rparr>
      | (s, Some closure) \<Rightarrow>
          sys\<lparr> app := s,
               cycles := cycles sys @ [\<lparr> cycle_closure = closure, cycle_phase = Capturing \<rparr>] \<rparr>)"

definition dropCycle :: "nat \<Rightarrow> Cycle list \<Rightarrow> Cycle list" where
  "dropCycle i cs = take i cs @ drop (Suc i) cs"

definition resume :: "nat \<Rightarrow> Progress \<Rightarrow> System \<Rightarrow> System" where
  \<comment> \<open>The waiting call number \<open>i\<close> continues with what it waited for.\<close>
  "resume i pr sys =
     (if i < length (cycles sys)
      then
        (let c = cycles sys ! i
         in case (cycle_phase c, pr) of
              (Capturing, Captured uri) \<Rightarrow>
                sys\<lparr> app := performOCR_captured uri (app sys),
                     cycles := (cycles sys)[i := c\<lparr> cycle_phase := Measuring \<rparr>] \<rparr>
            | (Measuring, Measured w h) \<Rightarrow>
                sys\<lparr> app := performOCR_measured w h (app sys),
                     cycles := (cycles sys)[i := c\<lparr> cycle_phase := Recognizing \<rparr>] \<rparr>
            | (Recognizing, Recognized result) \<Rightarrow>
                sys\<lparr> app := performOCR_recognized (cycle_closure c) result (app sys),
                     cycles := dropCycle i (cycles sys) \<rparr>
            | (_, Failed) \<Rightarrow>
                sys\<lparr> app := performOCR_finally (app sys), cycles := dropCycle i (cycles sys) \<rparr>
            | _ \<Rightarrow> sys)
      else sys)"

fun step :: "Event \<Rightarrow> System \<Rightarrow> System" where
  "step (LayoutChange w h x y) sys = sys\<lparr> app := handleLayoutChange w h x y (app sys) \<rparr>"
| "step (ToggleDrawingMode viewMounted) sys = started sys (toggleDrawingMode viewMounted (app sys))"
| "step (TouchStart lx ly) sys = sys\<lparr> app := handleTouchStart lx ly (app sys) \<rparr>"
| "step (TouchMove lx ly) sys = sys\<lparr> app := handleTouchMove lx ly (app sys) \<rparr>"
| "step TouchEnd sys = sys\<lparr> app := handleTouchEnd (app sys) \<rparr>"
| "step (AnalysisEffect viewMounted) sys = started sys (analysisEffect viewMounted (app sys))"
| "step (TextSelection t) sys = sys\<lparr> app := handleTextSelection t (app sys) \<rparr>"
| "step ClearAll sys = sys\<lparr> app := clearAll (app sys) \<rparr>"
| "step ClearCurrentDrawing sys = sys\<lparr> app := clearCurrentDrawing (app sys) \<rparr>"
| "step CloseTextPanel sys = sys\<lparr> app := handleCloseTextPanel (app sys) \<rparr>"
| "step (PageChange p n) sys = sys\<lparr> app := handlePageChange p n (app sys) \<rparr>"
| "step (LastViewedPageLoaded saved lastViewed) sys =
     sys\<lparr> app := loadLastViewedPage (pdfPath sys) saved lastViewed (app sys) \<rparr>"
| "step (Resume i pr) sys = resume i pr sys"

definition run :: "Event list \<Rightarrow> System \<Rightarrow> System" where
  "run events sys = foldl (\<lambda>sy e. step e sy) sys events"

definition initialSystem :: "string \<Rightarrow> number \<Rightarrow> number \<Rightarrow> System" where
  "initialSystem documentPath windowWidth windowHeight =
     \<lparr> app = initialState windowWidth windowHeight, cycles = [], pdfPath = documentPath \<rparr>"

section \<open>Notions the properties are stated with\<close>

text \<open>The words of a recognition result by their indices, and the order of the traversal.\<close>

definition wordAt :: "TextRecognitionResult \<Rightarrow> IntersectingElement \<Rightarrow> TextElement" where
  \<comment> \<open>The word a triple of indices names, for indices in range.\<close>
  "wordAt result e =
     elements (lines (blocks result ! blockIndex e) ! lineIndex e) ! elementIndex e"

definition inResult :: "TextRecognitionResult \<Rightarrow> IntersectingElement \<Rightarrow> bool" where
  "inResult result e =
     (blockIndex e < length (blocks result)
      \<and> lineIndex e < length (lines (blocks result ! blockIndex e))
      \<and> elementIndex e
          < length (elements (lines (blocks result ! blockIndex e) ! lineIndex e)))"

definition traversalBefore :: "IntersectingElement \<Rightarrow> IntersectingElement \<Rightarrow> bool" where
  \<comment> \<open>Ascending block, then line, then element index.\<close>
  "traversalBefore a b =
     (blockIndex a < blockIndex b
      \<or> (blockIndex a = blockIndex b
          \<and> (lineIndex a < lineIndex b
              \<or> (lineIndex a = lineIndex b \<and> elementIndex a < elementIndex b))))"

text \<open>The two encodings of a rectangle that a frame may arrive in.\<close>

definition frameOfSize :: "real \<Rightarrow> real \<Rightarrow> real \<Rightarrow> real \<Rightarrow> Frame" where
  \<comment> \<open>left / top / width / height\<close>
  "frameOfSize l t w h =
     \<lparr> frame_left = Some (Fin l), frame_top = Some (Fin t), frame_x = None, frame_y = None,
       frame_width = Some (Fin w), frame_height = Some (Fin h),
       frame_right = None, frame_bottom = None \<rparr>"

definition frameOfEdges :: "real \<Rightarrow> real \<Rightarrow> real \<Rightarrow> real \<Rightarrow> Frame" where
  \<comment> \<open>left / top / right / bottom\<close>
  "frameOfEdges l t r b =
     \<lparr> frame_left = Some (Fin l), frame_top = Some (Fin t), frame_x = None, frame_y = None,
       frame_width = None, frame_height = None,
       frame_right = Some (Fin r), frame_bottom = Some (Fin b) \<rparr>"


text \<open>The texts the selected-text string is joined from: those of the listed words that
  are not empty, in the order of the list.\<close>

definition selectedTextsOf :: "TextRecognitionResult \<Rightarrow> IntersectingElement list \<Rightarrow> string list" where
  "selectedTextsOf result es = filter (\<lambda>t. t \<noteq> []) (map (\<lambda>e. element_text (wordAt result e)) es)"

text \<open>At most one saved path on every page, with the pages compared as the component
  compares them.\<close>

definition onePerPage :: "DrawPath list \<Rightarrow> bool" where
  "onePerPage ps = (\<forall>d \<in> set ps. length (pathsOnPage (page d) ps) \<le> 1)"

text \<open>At most one analysis call is waiting, and \<^verbatim>\<open>isProcessing\<close> is set while one is.\<close>

definition oneCycle :: "System \<Rightarrow> bool" where
  "oneCycle sys = (length (cycles sys) \<le> 1 \<and> (cycles sys \<noteq> [] \<longrightarrow> isProcessing (app sys)))"

text \<open>A width, a height or an area that is zero or NaN.\<close>

definition degenerate :: "number \<Rightarrow> bool" where
  "degenerate a = (a = Fin 0 \<or> a = NaN)"

section \<open>Example data\<close>

text \<open>
  The scenario of the specification: one block with one line of two words, \<open>Hello\<close> at
  \<open>(0, 0)\<close> and \<open>World\<close> at \<open>(200, 0)\<close>, both 100 by 20, on a view of the size of the
  captured image. \<open>exampleState\<close> is the state after the page was analyzed and
  \<open>Hello\<close> was selected.
\<close>

definition exampleResult :: TextRecognitionResult where
  "exampleResult =
     \<lparr> blocks = [ \<lparr> lines = [ \<lparr> elements =
         [ \<lparr> element_text = ''Hello'', element_frame = Some (frameOfSize 0 0 100 20) \<rparr>,
           \<lparr> element_text = ''World'', element_frame = Some (frameOfSize 200 0 100 20) \<rparr> ] \<rparr> ] \<rparr> ] \<rparr>"

definition exampleState :: State where
  "exampleState =
     (initialState (Fin 400) (Fin 800))
       \<lparr> ocrComplete := True, ocrResult := Some exampleResult,
         selectedText := Some ''Hello'',
         intersectingElements := [\<lparr> blockIndex = 0, lineIndex = 0, elementIndex = 0 \<rparr>],
         imageSize := \<lparr> image_width = Fin 400, image_height = Fin 800 \<rparr> \<rparr>"


text \<open>The first word of a result, and a result whose only word has a frame of width 0.\<close>

definition firstWord :: IntersectingElement where
  "firstWord = \<lparr> blockIndex = 0, lineIndex = 0, elementIndex = 0 \<rparr>"

definition thinResult :: TextRecognitionResult where
  "thinResult =
     \<lparr> blocks = [ \<lparr> lines = [ \<lparr> elements =
         [ \<lparr> element_text = ''I'', element_frame = Some (frameOfSize 10 0 0 20) \<rparr> ] \<rparr> ] \<rparr> ] \<rparr>"

text \<open>
  Two sessions of events. In the first, a lasso is drawn on page 1, the page changes to 2,
  a lasso is drawn there, and a second stroke on page 2 is about to be finished. In the
  second, the analysis of page 1 runs to its end and lasso mode is switched off again.
\<close>

definition twoPageStroke :: "Event list" where
  "twoPageStroke =
     [ ToggleDrawingMode True,
       TouchStart ''0'' ''0'', TouchMove ''100'' ''20'', TouchEnd,
       PageChange (Fin 2) (Fin 3),
       TouchStart ''7'' ''7'', TouchMove ''9'' ''9'', TouchEnd,
       TouchStart ''5'' ''5'', TouchMove ''50'' ''50'' ]"

definition strokeState :: State where
  "strokeState = app (run twoPageStroke (initialSystem ''/a.pdf'' (Fin 400) (Fin 800)))"

definition analyzedEvents :: "Event list" where
  "analyzedEvents =
     [ ToggleDrawingMode True,
       Resume 0 (Captured ''page.jpg''), Resume 0 (Measured (Fin 400) (Fin 800)),
       Resume 0 (Recognized (Some exampleResult)),
       ToggleDrawingMode True ]"

definition analyzedState :: State where
  "analyzedState = app (run analyzedEvents (initialSystem ''/a.pdf'' (Fin 400) (Fin 800)))"

section \<open>Evaluation\<close>

lemmas parse_defs = parseSvgPath_def trim_def split_separators_def isSeparator_def
  isWhiteSpace_def parseFloat_def parseInt10_def signOf_def isDigit_def digitsValue_def
  digitValue_def exponentPart_def isNaN_def Let_def

lemma exampleState_reads:
  "ocrResult exampleState = Some exampleResult"
  "viewLayout exampleState = \<lparr> layout_width = Fin 400, layout_height = Fin 800, layout_x = Fin 0, layout_y = Fin 0 \<rparr>"
  "imageSize exampleState = \<lparr> image_width = Fin 400, image_height = Fin 800 \<rparr>"
  "selectedText exampleState = Some ''Hello''"
  by (simp_all add: exampleState_def initialState_def)

lemma exampleSelection:
  "resultElements (elementSelected (viewLayout exampleState) (imageSize exampleState)
       (parseSvgPath ''M 300 20 L 0 0'')) exampleResult
     = [firstWord, \<lparr> blockIndex = 0, lineIndex = 0, elementIndex = 1 \<rparr>]"
  "resultElements (elementSelected (viewLayout exampleState) (imageSize exampleState)
       (parseSvgPath ''M 500 500 L 600 600'')) exampleResult = []"
  by code_simp+

lemma strokeState_fields:
  "isDrawingEnabled strokeState" "isDrawing strokeState"
  "currentPath strokeState = ''M 5 5 L 50 50''" "currentPage strokeState = Fin 2"
  "paths strokeState = [\<lparr> path = ''M 0 0 L 100 20'', page = Fin 1 \<rparr>, \<lparr> path = ''M 7 7 L 9 9'', page = Fin 2 \<rparr>]"
  by (simp_all add: strokeState_def twoPageStroke_def run_def initialSystem_def initialState_def
      started_def toggleDrawingMode_def performOCR_def array_includes_def handleTouchStart_def
      handleTouchMove_def handleTouchEnd_def handlePageChange_def pathsOffPage_def js_neq_def
      js_eq_def Let_def)

lemma analyzedState_fields:
  "analyzedPages analyzedState = [Fin 1]" "currentPage analyzedState = Fin 1"
  "\<not> isDrawingEnabled analyzedState" "\<not> isProcessing analyzedState"
  by (simp_all add: analyzedState_def analyzedEvents_def run_def initialSystem_def initialState_def
      started_def toggleDrawingMode_def performOCR_def array_includes_def resume_def dropCycle_def
      performOCR_captured_def performOCR_measured_def performOCR_recognized_def
      performOCR_finally_def pathsOnPage_def js_neq_def js_eq_def Let_def)

section \<open>The traversal of the recognition result\<close>

lemma lineElements_iff:
  "e \<in> set (lineElements sel bi li line) \<longleftrightarrow>
     blockIndex e = bi \<and> lineIndex e = li \<and> elementIndex e < length (elements line)
     \<and> sel (elements line ! elementIndex e)"
  by (cases e) (auto simp: lineElements_def in_set_enumerate_eq image_iff)

lemma blockElements_iff:
  "e \<in> set (blockElements sel bi block) \<longleftrightarrow>
     blockIndex e = bi \<and> lineIndex e < length (lines block)
     \<and> elementIndex e < length (elements (lines block ! lineIndex e))
     \<and> sel (elements (lines block ! lineIndex e) ! elementIndex e)"
  by (auto simp: blockElements_def in_set_enumerate_eq lineElements_iff)

lemma resultElements_iff:
  "e \<in> set (resultElements sel result) \<longleftrightarrow> inResult result e \<and> sel (wordAt result e)"
  by (auto simp: resultElements_def in_set_enumerate_eq blockElements_iff inResult_def wordAt_def)

lemma sorted_wrt_concat_enumerate:
  assumes "\<And>i x. sorted_wrt R (f (i, x))"
    and "\<And>i j x y a b. i < j \<Longrightarrow> a \<in> set (f (i, x)) \<Longrightarrow> b \<in> set (f (j, y)) \<Longrightarrow> R a b"
  shows "sorted_wrt R (concat (map f (enumerate n xs)))"
proof (induction xs arbitrary: n)
  case Nil
  show ?case by simp
next
  case (Cons x xs)
  have "R a b" if "a \<in> set (f (n, x))" and "p \<in> set (enumerate (Suc n) xs)" and "b \<in> set (f p)"
    for a b p
  proof -
    have "n < fst p" using that(2) by (simp add: in_set_enumerate_eq)
    then show ?thesis using assms(2) [of n "fst p" a x b "snd p"] that by simp
  qed
  then show ?case
    using Cons.IH [of "Suc n"] assms(1) [of n x] by (auto simp: sorted_wrt_append)
qed

lemma sorted_lineElements: "sorted_wrt traversalBefore (lineElements sel bi li line)"
proof -
  have "sorted_wrt (\<lambda>p q. fst p < fst q) (enumerate n xs)" for n and xs :: "TextElement list"
    by (induction xs arbitrary: n) (auto simp: in_set_enumerate_eq)
  then have "sorted_wrt (\<lambda>p q. fst p < fst q)
      (filter (\<lambda>(ei, element). sel element) (enumerate 0 (elements line)))"
    by (rule sorted_wrt_filter)
  then show ?thesis
    by (simp add: lineElements_def sorted_wrt_map traversalBefore_def case_prod_beta)
qed

lemma sorted_blockElements: "sorted_wrt traversalBefore (blockElements sel bi block)"
  unfolding blockElements_def
  by (rule sorted_wrt_concat_enumerate)
     (auto simp: sorted_lineElements lineElements_iff traversalBefore_def)

lemma sorted_resultElements: "sorted_wrt traversalBefore (resultElements sel result)"
  unfolding resultElements_def
  by (rule sorted_wrt_concat_enumerate)
     (auto simp: sorted_blockElements blockElements_iff traversalBefore_def)

lemma those_elementTextAt:
  "\<forall>e \<in> set es. inResult result e \<Longrightarrow>
   those (map (elementTextAt result) es) = Some (map (\<lambda>e. element_text (wordAt result e)) es)"
  by (induction es) (auto simp: elementTextAt_def inResult_def wordAt_def Let_def)

lemma join_nonempty: "ts \<noteq> [] \<Longrightarrow> \<forall>t \<in> set ts. t \<noteq> [] \<Longrightarrow> join sep ts \<noteq> []"
  by (induction sep ts rule: join.induct) auto

lemma selectedTextsOf_nonempty: "\<forall>t \<in> set (selectedTextsOf result es). t \<noteq> []"
  by (simp add: selectedTextsOf_def)

text \<open>
  A run of the engine on a recognition result with a lasso of at least two points: it
  returns normally, stores the pushed elements, and writes the selected text when one of
  them has a text.
\<close>

lemma findIntersectingBlocks_run:
  assumes "ocrResult closure = Some result" and "2 \<le> length (parseSvgPath pathString)"
  shows "findIntersectingBlocks closure pathString s =
    (let es = resultElements
                (elementSelected (viewLayout closure) (imageSize closure) (parseSvgPath pathString))
                result;
         texts = selectedTextsOf result es
     in (Normal, if texts = [] then s\<lparr> intersectingElements := es \<rparr>
                 else s\<lparr> intersectingElements := es, selectedText := Some (join '' '' texts) \<rparr>))"
proof -
  let ?es = "resultElements
      (elementSelected (viewLayout closure) (imageSize closure) (parseSvgPath pathString)) result"
  have "\<forall>e \<in> set ?es. inResult result e"
    by (simp add: resultElements_iff)
  then have t: "those (map (elementTextAt result) ?es)
      = Some (map (\<lambda>e. element_text (wordAt result e)) ?es)"
    by (rule those_elementTextAt)
  have ne: "selectedTextsOf result [] = []" by (simp add: selectedTextsOf_def)
  show ?thesis
    using assms by (auto simp: findIntersectingBlocks_def Let_def t selectedTextsOf_def)
qed

section \<open>Degenerate words\<close>

lemma js_mul_one: "js_mul a (Fin 1) = a"
  by (cases a) simp_all

lemma js_add_zero: "js_add a (Fin 0) = a"
  by (cases a) simp_all

lemma Math_min_same: "Math_min [a, a, a, a] = a" "Math_max [a, a, a, a] = a"
  by (cases a; simp add: Math_min_def Math_max_def min2_def max2_def)+

lemma extent_degenerate:
  "js_lt (Math_min [q, a]) (Math_max [p, a])
   \<or> degenerate (js_sub (Math_min [q, a]) (Math_max [p, a]))"
  by (cases a; cases p; cases q)
     (auto simp: Math_min_def Math_max_def min2_def max2_def degenerate_def)

lemma degenerate_sub: "degenerate (js_sub a a)"
  by (cases a) (simp_all add: degenerate_def)

lemma degenerate_mul: "degenerate a \<Longrightarrow> degenerate (js_mul a b)" "degenerate a \<Longrightarrow> degenerate (js_mul b a)"
  by (cases b; auto simp: degenerate_def)+

lemma degenerate_div: "degenerate a \<Longrightarrow> degenerate b \<Longrightarrow> js_div a b = NaN"
  by (auto simp: degenerate_def)

lemma zero_width_overlap:
  assumes "rect_width m = Fin 0"
  shows "\<not> js_ge (calculateOverlapArea (wordPointsOf m) pathPoints) OVERLAP_THRESHOLD"
proof -
  let ?X = "rect_x m"
  let ?ys = "map point_y (wordPointsOf m)"
  let ?oMaxX = "Math_min [Math_max (map point_x pathPoints), ?X]"
  let ?oMinX = "Math_max [Math_min (map point_x pathPoints), ?X]"
  let ?oMaxY = "Math_min [Math_max (map point_y pathPoints), Math_max ?ys]"
  let ?oMinY = "Math_max [Math_min (map point_y pathPoints), Math_min ?ys]"
  have xs: "map point_x (wordPointsOf m) = [?X, ?X, ?X, ?X]"
    by (simp add: wordPointsOf_def assms js_add_zero)
  have eq: "calculateOverlapArea (wordPointsOf m) pathPoints =
      (if js_lt ?oMaxX ?oMinX \<or> js_lt ?oMaxY ?oMinY then Fin 0
       else js_mul (js_div (js_mul (js_sub ?oMaxX ?oMinX) (js_sub ?oMaxY ?oMinY))
                      (js_mul (js_sub ?X ?X) (js_sub (Math_max ?ys) (Math_min ?ys))))
              (Fin 100))"
    unfolding calculateOverlapArea_def Let_def xs Math_min_same ..
  show ?thesis
  proof (cases "js_lt ?oMaxX ?oMinX \<or> js_lt ?oMaxY ?oMinY")
    case True
    then show ?thesis
      unfolding eq by (simp add: js_ge_def OVERLAP_THRESHOLD_def)
  next
    case False
    then have "degenerate (js_sub ?oMaxX ?oMinX)"
      using extent_degenerate [of "Math_max (map point_x pathPoints)" ?X "Math_min (map point_x pathPoints)"]
      by simp
    then have "js_div (js_mul (js_sub ?oMaxX ?oMinX) (js_sub ?oMaxY ?oMinY))
        (js_mul (js_sub ?X ?X) (js_sub (Math_max ?ys) (Math_min ?ys))) = NaN"
      by (intro degenerate_div degenerate_mul degenerate_sub)
    then show ?thesis
      unfolding eq using False by (simp add: js_ge_def)
  qed
qed

lemma zero_height_overlap:
  assumes "rect_height m = Fin 0"
  shows "\<not> js_ge (calculateOverlapArea (wordPointsOf m) pathPoints) OVERLAP_THRESHOLD"
proof -
  let ?Y = "rect_y m"
  let ?xs = "map point_x (wordPointsOf m)"
  let ?oMaxX = "Math_min [Math_max (map point_x pathPoints), Math_max ?xs]"
  let ?oMinX = "Math_max [Math_min (map point_x pathPoints), Math_min ?xs]"
  let ?oMaxY = "Math_min [Math_max (map point_y pathPoints), ?Y]"
  let ?oMinY = "Math_max [Math_min (map point_y pathPoints), ?Y]"
  have ys: "map point_y (wordPointsOf m) = [?Y, ?Y, ?Y, ?Y]"
    by (simp add: wordPointsOf_def assms js_add_zero)
  have eq: "calculateOverlapArea (wordPointsOf m) pathPoints =
      (if js_lt ?oMaxX ?oMinX \<or> js_lt ?oMaxY ?oMinY then Fin 0
       else js_mul (js_div (js_mul (js_sub ?oMaxX ?oMinX) (js_sub ?oMaxY ?oMinY))
                      (js_mul (js_sub (Math_max ?xs) (Math_min ?xs)) (js_sub ?Y ?Y)))
              (Fin 100))"
    unfolding calculateOverlapArea_def Let_def ys Math_min_same ..
  show ?thesis
  proof (cases "js_lt ?oMaxX ?oMinX \<or> js_lt ?oMaxY ?oMinY")
    case True
    then show ?thesis
      unfolding eq by (simp add: js_ge_def OVERLAP_THRESHOLD_def)
  next
    case False
    then have "degenerate (js_sub ?oMaxY ?oMinY)"
      using extent_degenerate [of "Math_max (map point_y pathPoints)" ?Y "Math_min (map point_y pathPoints)"]
      by simp
    then have "js_div (js_mul (js_sub ?oMaxX ?oMinX) (js_sub ?oMaxY ?oMinY))
        (js_mul (js_sub (Math_max ?xs) (Math_min ?xs)) (js_sub ?Y ?Y)) = NaN"
      by (intro degenerate_div degenerate_mul degenerate_sub)
    then show ?thesis
      unfolding eq using False by (simp add: js_ge_def)
  qed
qed

section \<open>What the handlers leave alone\<close>

lemma findIntersectingBlocks_keeps:
  "paths (snd (findIntersectingBlocks closure pathString s)) = paths s"
  "isProcessing (snd (findIntersectingBlocks closure pathString s)) = isProcessing s"
  by (auto simp: findIntersectingBlocks_def Let_def split: option.splits)

lemma performOCR_paths: "paths (fst (performOCR closure viewMounted s)) = paths s"
  by (simp add: performOCR_def performOCR_finally_def Let_def)

lemma performOCR_started:
  assumes "isProcessing s = isProcessing closure"
  shows "(snd (performOCR closure viewMounted s) \<noteq> None
            \<longrightarrow> \<not> isProcessing closure \<and> isProcessing (fst (performOCR closure viewMounted s)))
         \<and> (isProcessing closure \<longrightarrow> isProcessing (fst (performOCR closure viewMounted s)))"
  using assms by (simp add: performOCR_def performOCR_finally_def Let_def)

lemma toggleDrawingMode_paths: "paths (fst (toggleDrawingMode viewMounted s)) = paths s"
  by (simp add: toggleDrawingMode_def Let_def performOCR_paths)

lemma analysisEffect_paths: "paths (fst (analysisEffect viewMounted s)) = paths s"
  by (simp add: analysisEffect_def performOCR_paths)

lemma toggleDrawingMode_started:
  "(snd (toggleDrawingMode viewMounted s) \<noteq> None
      \<longrightarrow> \<not> isProcessing s \<and> isProcessing (fst (toggleDrawingMode viewMounted s)))
   \<and> (isProcessing s \<longrightarrow> isProcessing (fst (toggleDrawingMode viewMounted s)))"
proof (cases "\<not> isDrawingEnabled s \<and> \<not> isProcessing s")
  case True
  then show ?thesis
    using performOCR_started [of _ s viewMounted]
    by (simp add: toggleDrawingMode_def Let_def)
next
  case False
  then show ?thesis
    by (auto simp: toggleDrawingMode_def Let_def)
qed

lemma analysisEffect_started:
  "(snd (analysisEffect viewMounted s) \<noteq> None
      \<longrightarrow> \<not> isProcessing s \<and> isProcessing (fst (analysisEffect viewMounted s)))
   \<and> (isProcessing s \<longrightarrow> isProcessing (fst (analysisEffect viewMounted s)))"
  using performOCR_started [of s s viewMounted]
  by (simp add: analysisEffect_def)

lemma performOCR_recognized_paths: "paths (performOCR_recognized closure result s) = paths s"
  by (simp add: performOCR_recognized_def performOCR_finally_def Let_def findIntersectingBlocks_keeps
      split: option.splits)

lemma completion_case_keeps:
  "paths (case r of (Normal, s3) \<Rightarrow> s3\<lparr> currentPath := [] \<rparr>
                  | (TypeError, s3) \<Rightarrow> s3\<lparr> isDrawing := False, currentPath := [] \<rparr>)
     = paths (snd r)"
  "isProcessing (case r of (Normal, s3) \<Rightarrow> s3\<lparr> currentPath := [] \<rparr>
                  | (TypeError, s3) \<Rightarrow> s3\<lparr> isDrawing := False, currentPath := [] \<rparr>)
     = isProcessing (snd r)"
  by (cases r; cases "fst r"; simp)+

lemma handleTouchEnd_paths:
  "paths (handleTouchEnd s) =
     (if isDrawingEnabled s \<and> isDrawing s \<and> currentPath s \<noteq> []
      then pathsOffPage (currentPage s) (paths s) @ [\<lparr> path = currentPath s, page = currentPage s \<rparr>]
      else paths s)"
  by (simp add: handleTouchEnd_def Let_def completion_case_keeps findIntersectingBlocks_keeps)

lemma handleTouchEnd_isProcessing: "isProcessing (handleTouchEnd s) = isProcessing s"
  by (simp add: handleTouchEnd_def Let_def completion_case_keeps findIntersectingBlocks_keeps)

lemma started_app: "app (started sys r) = fst r" "cycles (started sys r) =
    (case snd r of None \<Rightarrow> cycles sys
     | Some c \<Rightarrow> cycles sys @ [\<lparr> cycle_closure = c, cycle_phase = Capturing \<rparr>])"
  by (cases r; cases "snd r"; simp add: started_def)+

lemma resume_paths: "paths (app (resume i pr sys)) = paths (app sys)"
  by (simp add: resume_def Let_def performOCR_captured_def performOCR_measured_def
      performOCR_recognized_paths performOCR_finally_def split: Phase.splits Progress.splits)

section \<open>Saved paths, page by page\<close>

lemma onePerPage_all: "onePerPage ps \<longleftrightarrow> (\<forall>p. length (pathsOnPage p ps) \<le> 1)"
proof
  assume one: "onePerPage ps"
  show "\<forall>p. length (pathsOnPage p ps) \<le> 1"
  proof
    fix p
    show "length (pathsOnPage p ps) \<le> 1"
    proof (cases "pathsOnPage p ps = []")
      case True
      then show ?thesis by simp
    next
      case False
      then obtain d where "d \<in> set ps" and "js_eq (page d) p"
        by (auto simp: pathsOnPage_def filter_empty_conv)
      then show ?thesis
        using one by (auto simp: onePerPage_def js_eq_def)
    qed
  qed
next
  assume "\<forall>p. length (pathsOnPage p ps) \<le> 1"
  then show "onePerPage ps"
    by (simp add: onePerPage_def)
qed

lemma pathsOnPage_replaced:
  "pathsOnPage p (pathsOffPage c ps @ [\<lparr> path = x, page = c \<rparr>]) =
     (if js_eq c p then [\<lparr> path = x, page = c \<rparr>] else pathsOnPage p ps)"
proof -
  have "filter (\<lambda>d. js_eq (page d) p) (filter (\<lambda>d. js_neq (page d) c) ps) =
      (if js_eq c p then [] else filter (\<lambda>d. js_eq (page d) p) ps)"
    by (induction ps) (auto simp: js_eq_def js_neq_def)
  then show ?thesis
    by (simp add: pathsOnPage_def pathsOffPage_def)
qed

lemma pathsOnPage_removed:
  "pathsOnPage p (pathsOffPage c ps) = (if js_eq c p then [] else pathsOnPage p ps)"
  unfolding pathsOnPage_def pathsOffPage_def
  by (induction ps) (auto simp: js_eq_def js_neq_def)

lemma onePerPage_replaced:
  "onePerPage ps \<Longrightarrow> onePerPage (pathsOffPage c ps @ [\<lparr> path = x, page = c \<rparr>])"
  by (simp add: onePerPage_all pathsOnPage_replaced)

lemma onePerPage_removed: "onePerPage ps \<Longrightarrow> onePerPage (pathsOffPage c ps)"
  by (simp add: onePerPage_all pathsOnPage_removed)

lemma onePerPage_Nil: "onePerPage []"
  by (simp add: onePerPage_def)

lemma step_onePerPage:
  assumes "onePerPage (paths (app sys))"
  shows "onePerPage (paths (app (step e sys)))"
proof (cases e)
  case TouchEnd
  then show ?thesis
    using assms by (simp add: handleTouchEnd_paths onePerPage_replaced)
next
  case ClearCurrentDrawing
  then show ?thesis
    using assms by (simp add: clearCurrentDrawing_def onePerPage_removed)
qed (use assms in \<open>simp_all add: handleLayoutChange_def started_app toggleDrawingMode_paths
      handleTouchStart_def handleTouchMove_def analysisEffect_paths handleTextSelection_def
      clearAll_def handleCloseTextPanel_def handlePageChange_def loadLastViewedPage_def
      onePerPage_Nil resume_paths Let_def split: settled.splits option.splits\<close>)

lemma run_onePerPage: "onePerPage (paths (app sys)) \<Longrightarrow> onePerPage (paths (app (run events sys)))"
  unfolding run_def by (induction events arbitrary: sys) (simp_all add: step_onePerPage)

section \<open>Analysis calls in flight\<close>

lemma started_oneCycle:
  assumes "oneCycle sys"
    and "(snd r \<noteq> None \<longrightarrow> \<not> isProcessing (app sys) \<and> isProcessing (fst r))
         \<and> (isProcessing (app sys) \<longrightarrow> isProcessing (fst r))"
  shows "oneCycle (started sys r)"
  using assms by (cases "snd r") (auto simp: oneCycle_def started_app)

lemma resume_oneCycle:
  assumes "oneCycle sys"
  shows "oneCycle (resume i pr sys)"
proof (cases "i < length (cycles sys)")
  case False
  then show ?thesis using assms by (simp add: resume_def)
next
  case True
  then have i: "i = 0" and c: "length (cycles sys) = 1" and p: "isProcessing (app sys)"
    using assms by (auto simp: oneCycle_def)
  then have d: "dropCycle i (cycles sys) = []"
    by (simp add: dropCycle_def)
  show ?thesis
    using True c p d
    by (auto simp: resume_def Let_def oneCycle_def performOCR_captured_def performOCR_measured_def
        split: Phase.splits Progress.splits)
qed

lemma step_oneCycle:
  assumes "oneCycle sys"
  shows "oneCycle (step e sys)"
proof (cases e)
  case (ToggleDrawingMode m)
  then show ?thesis
    using assms toggleDrawingMode_started by (simp add: started_oneCycle)
next
  case (AnalysisEffect m)
  then show ?thesis
    using assms analysisEffect_started by (simp add: started_oneCycle)
next
  case (Resume i pr)
  then show ?thesis
    using assms by (simp add: resume_oneCycle)
qed (use assms in \<open>simp_all add: oneCycle_def handleLayoutChange_def handleTouchStart_def
      handleTouchMove_def handleTouchEnd_isProcessing handleTextSelection_def clearAll_def
      clearCurrentDrawing_def handleCloseTextPanel_def handlePageChange_def
      loadLastViewedPage_def Let_def split: settled.splits option.splits\<close>)

lemma run_oneCycle: "oneCycle sys \<Longrightarrow> oneCycle (run events sys)"
  unfolding run_def by (induction events arbitrary: sys) (simp_all add: step_oneCycle)

section \<open>Reading order\<close>

text \<open>
  Claim C2. For a recognition result and a lasso of at least two points, the selected
  triples are stored in strictly ascending block, then line, then element index order,
  each naming a word of the result, and the selected text is the texts of the selected
  words joined by one space in that order. Words with an empty text add nothing to the
  string, and the string is written only when a selected word has a text. The order does
  not depend on the direction of the gesture: a lasso drawn from the bottom right to the
  top left gives \<open>Hello World\<close> (the witness).
\<close>

theorem selection_in_traversal_order:
  assumes "ocrResult closure = Some result"
    and "2 \<le> length (parseSvgPath pathString)"
    and "s' = snd (findIntersectingBlocks closure pathString s)"
  shows "sorted_wrt traversalBefore (intersectingElements s')
    \<and> (\<forall>e \<in> set (intersectingElements s'). inResult result e)
    \<and> selectedText s' =
        (if selectedTextsOf result (intersectingElements s') = [] then selectedText s
         else Some (join '' '' (selectedTextsOf result (intersectingElements s'))))
    \<and> (intersectingElements s' \<noteq> []
        \<and> (\<forall>e \<in> set (intersectingElements s'). element_text (wordAt result e) \<noteq> [])
        \<longrightarrow> selectedText s' =
              Some (join '' '' (map (\<lambda>e. element_text (wordAt result e)) (intersectingElements s'))))"
proof -
  let ?es = "resultElements
      (elementSelected (viewLayout closure) (imageSize closure) (parseSvgPath pathString)) result"
  have es: "intersectingElements s' = ?es"
    using assms by (simp add: findIntersectingBlocks_run Let_def)
  have sel: "selectedText s' =
      (if selectedTextsOf result ?es = [] then selectedText s
       else Some (join '' '' (selectedTextsOf result ?es)))"
    using assms by (simp add: findIntersectingBlocks_run Let_def)
  have all: "selectedTextsOf result ?es = map (\<lambda>e. element_text (wordAt result e)) ?es"
    if "\<forall>e \<in> set ?es. element_text (wordAt result e) \<noteq> []"
    using that unfolding selectedTextsOf_def by (simp add: filter_id_conv)
  show ?thesis
    unfolding es using sel all
    by (auto simp: sorted_resultElements resultElements_iff)
qed

theorem selection_in_traversal_order_witness:
  "intersectingElements (snd (findIntersectingBlocks exampleState ''M 300 20 L 0 0'' exampleState))
     = [firstWord, \<lparr> blockIndex = 0, lineIndex = 0, elementIndex = 1 \<rparr>]
   \<and> traversalBefore firstWord \<lparr> blockIndex = 0, lineIndex = 0, elementIndex = 1 \<rparr>
   \<and> selectedText (snd (findIntersectingBlocks exampleState ''M 300 20 L 0 0'' exampleState))
     = Some ''Hello World''"
proof -
  let ?s' = "snd (findIntersectingBlocks exampleState ''M 300 20 L 0 0'' exampleState)"
  have l: "2 \<le> length (parseSvgPath ''M 300 20 L 0 0'')"
    by (simp add: parse_defs)
  have es: "intersectingElements ?s' = [firstWord, \<lparr> blockIndex = 0, lineIndex = 0, elementIndex = 1 \<rparr>]"
    using l by (simp add: findIntersectingBlocks_run exampleState_reads(1) exampleSelection Let_def)
  have ts: "selectedTextsOf exampleResult [firstWord, \<lparr> blockIndex = 0, lineIndex = 0, elementIndex = 1 \<rparr>]
      = [''Hello'', ''World'']"
    by (simp add: selectedTextsOf_def wordAt_def exampleResult_def firstWord_def)
  show ?thesis
    using selection_in_traversal_order [OF exampleState_reads(1) l refl, of exampleState]
    unfolding es ts by simp
qed

section \<open>The two encodings of a frame\<close>

text \<open>
  What the two encodings of one rectangle are read to. The test
  \<^verbatim>\<open>frame.right ? frame.right - x : 0\<close> takes the branch of the difference for a right
  edge other than 0, and for a right edge at 0 the difference is 0 as well when the left
  edge is at 0; the same holds for the bottom and the top.
\<close>

lemma encodings_agree_unless_zero_edge:
  assumes "r = 0 \<longrightarrow> l = 0" and "b = 0 \<longrightarrow> t = 0"
  shows "normalizeFrame (frameOfEdges l t r b) = (Fin l, Fin t, Fin (r - l), Fin (b - t))"
    and "normalizeFrame (frameOfSize l t (r - l) (b - t)) = (Fin l, Fin t, Fin (r - l), Fin (b - t))"
proof -
  show "normalizeFrame (frameOfEdges l t r b) = (Fin l, Fin t, Fin (r - l), Fin (b - t))"
    using assms by (auto simp: normalizeFrame_def frameOfEdges_def js_or_def truthy_def Let_def)
  show "normalizeFrame (frameOfSize l t (r - l) (b - t)) = (Fin l, Fin t, Fin (r - l), Fin (b - t))"
    by (auto simp: normalizeFrame_def frameOfSize_def js_or_def truthy_def Let_def)
qed

text \<open>
  Claim C3. An OCR frame is a rectangle in image pixel space: its coordinates are not
  negative, its left edge is not right of its right edge and its top edge not below its
  bottom edge. Given by its edges (left, top, right, bottom) or by its size (left, top,
  width, height), such a rectangle is read to the same \<open>(x, y, width, height)\<close>, with
  \<open>width = right - left\<close> and \<open>height = bottom - top\<close>, is mapped to the same box and
  gets the same selection decision.
\<close>

theorem encodings_agree_in_image:
  assumes "0 \<le> l" and "l \<le> r" and "0 \<le> t" and "t \<le> b"
  shows "normalizeFrame (frameOfEdges l t r b) = (Fin l, Fin t, Fin (r - l), Fin (b - t))
    \<and> normalizeFrame (frameOfSize l t (r - l) (b - t)) = (Fin l, Fin t, Fin (r - l), Fin (b - t))
    \<and> mappedFrame layout img (frameOfEdges l t r b)
        = mappedFrame layout img (frameOfSize l t (r - l) (b - t))
    \<and> elementSelected layout img pathPoints
          \<lparr> element_text = word, element_frame = Some (frameOfEdges l t r b) \<rparr>
        = elementSelected layout img pathPoints
          \<lparr> element_text = word, element_frame = Some (frameOfSize l t (r - l) (b - t)) \<rparr>"
proof -
  have z: "r = 0 \<longrightarrow> l = 0" "b = 0 \<longrightarrow> t = 0"
    using assms by auto
  note n = encodings_agree_unless_zero_edge [OF z]
  show ?thesis
    by (simp add: n mappedFrame_def elementSelected_def)
qed

theorem encodings_agree_in_image_witness:
  "normalizeFrame (frameOfEdges 200 0 300 20) = (Fin 200, Fin 0, Fin 100, Fin 20)
   \<and> normalizeFrame (frameOfSize 200 0 100 20) = (Fin 200, Fin 0, Fin 100, Fin 20)
   \<and> normalizeFrame (frameOfEdges 0 0 0 0) = normalizeFrame (frameOfSize 0 0 0 0)"
proof -
  have a: "(0::real) \<le> 200" "(200::real) \<le> 300" "(0::real) \<le> 0" "(0::real) \<le> 20"
    by simp_all
  show ?thesis
    using encodings_agree_in_image [OF a(1) a(2) a(3) a(4)]
      encodings_agree_in_image [OF a(3) a(3) a(3) a(3)]
    by simp
qed

section \<open>Coordinate mapper: independent scale factors\<close>

text \<open>
  Claim C4. For a rectangle \<open>(x, y, w, h)\<close> in image pixel space and a layout with a
  positive image width and height, \<open>mapCoordinates\<close> returns
  \<open>(x * scaleX, y * scaleY, w * scaleX, h * scaleY)\<close> with
  \<open>scaleX = viewWidth / imageWidth\<close> and \<open>scaleY = viewHeight / imageHeight\<close>. When the
  view is twice as wide as the image and as high as it, \<open>x\<close> and the width double and
  \<open>y\<close> and the height are returned as they are. Both hold for any numbers as the
  rectangle's components, and are spelled out for finite ones.
\<close>

theorem mapCoordinates_scales_independently:
  assumes "0 < iw" and "0 < ih"
    and "image_width img = Fin iw" and "image_height img = Fin ih"
    and "layout_width layout = Fin vw" and "layout_height layout = Fin vh"
  shows "mapCoordinates layout img x y w h =
           \<lparr> rect_x = js_mul x (Fin (vw / iw)), rect_y = js_mul y (Fin (vh / ih)),
             rect_width = js_mul w (Fin (vw / iw)), rect_height = js_mul h (Fin (vh / ih)) \<rparr>
    \<and> mapCoordinates layout img (Fin a) (Fin b) (Fin c) (Fin d) =
           \<lparr> rect_x = Fin (a * (vw / iw)), rect_y = Fin (b * (vh / ih)),
             rect_width = Fin (c * (vw / iw)), rect_height = Fin (d * (vh / ih)) \<rparr>
    \<and> (vw = 2 * iw \<and> vh = ih \<longrightarrow>
          mapCoordinates layout img x y w h =
            \<lparr> rect_x = js_mul x (Fin 2), rect_y = y, rect_width = js_mul w (Fin 2), rect_height = h \<rparr>
          \<and> mapCoordinates layout img (Fin a) (Fin b) (Fin c) (Fin d) =
            \<lparr> rect_x = Fin (2 * a), rect_y = Fin b, rect_width = Fin (2 * c), rect_height = Fin d \<rparr>)"
  using assms by (simp add: mapCoordinates_def Let_def js_mul_one mult.commute)

theorem mapCoordinates_scales_independently_witness:
  "mapCoordinates
     \<lparr> layout_width = Fin 800, layout_height = Fin 600, layout_x = Fin 0, layout_y = Fin 0 \<rparr>
     \<lparr> image_width = Fin 400, image_height = Fin 600 \<rparr> (Fin 10) (Fin 20) (Fin 30) (Fin 40)
   = \<lparr> rect_x = Fin 20, rect_y = Fin 20, rect_width = Fin 60, rect_height = Fin 40 \<rparr>"
  using mapCoordinates_scales_independently [of 400 600
      "\<lparr> image_width = Fin 400, image_height = Fin 600 \<rparr>"
      "\<lparr> layout_width = Fin 800, layout_height = Fin 600, layout_x = Fin 0, layout_y = Fin 0 \<rparr>"
      800 600 "Fin 10" "Fin 20" "Fin 30" "Fin 40" 10 20 30 40]
  by simp

section \<open>Fewer than two lasso points\<close>

text \<open>
  Claim C5. When the path string parses to fewer than two points,
  \<open>findIntersectingBlocks\<close> returns normally and leaves the whole state, the highlighted
  elements and the selected text included, as it was.
\<close>

theorem fewer_than_two_points_no_change:
  "length (parseSvgPath pathString) < 2 \<Longrightarrow>
   findIntersectingBlocks closure pathString s = (Normal, s)"
  by (simp add: findIntersectingBlocks_def Let_def split: option.splits)

theorem fewer_than_two_points_no_change_witness:
  "length (parseSvgPath ''M 5 5'') < 2
   \<and> findIntersectingBlocks exampleState ''M 5 5'' exampleState = (Normal, exampleState)
   \<and> selectedText exampleState = Some ''Hello''"
proof -
  have h: "length (parseSvgPath ''M 5 5'') < 2"
    by (simp add: parse_defs)
  show ?thesis
    using h fewer_than_two_points_no_change [OF h, of exampleState exampleState]
    by (simp add: exampleState_def)
qed


section \<open>No selected word\<close>

text \<open>
  Claim C6. When no word meets the overlap threshold, the engine stores the empty list of
  elements and does not write the selected text: it stays what it was. In every call,
  the selected text is either left as it was or set to a string that is not empty.
\<close>

theorem no_selection_leaves_text_unset:
  assumes "s' = snd (findIntersectingBlocks closure pathString s)"
  shows "(ocrResult closure = Some result \<and> 2 \<le> length (parseSvgPath pathString)
          \<and> resultElements (elementSelected (viewLayout closure) (imageSize closure)
               (parseSvgPath pathString)) result = []
          \<longrightarrow> intersectingElements s' = [] \<and> selectedText s' = selectedText s)
    \<and> (selectedText s' = selectedText s \<or> (\<exists>t. selectedText s' = Some t \<and> t \<noteq> []))"
proof (cases "ocrResult closure")
  case None
  then show ?thesis using assms by (simp add: findIntersectingBlocks_def)
next
  case (Some r)
  show ?thesis
  proof (cases "2 \<le> length (parseSvgPath pathString)")
    case False
    then show ?thesis using assms Some by (simp add: findIntersectingBlocks_def Let_def)
  next
    case True
    let ?es = "resultElements
        (elementSelected (viewLayout closure) (imageSize closure) (parseSvgPath pathString)) r"
    have ne: "join '' '' (selectedTextsOf r ?es) \<noteq> []" if "selectedTextsOf r ?es \<noteq> []"
      using that selectedTextsOf_nonempty by (rule join_nonempty)
    have e: "selectedTextsOf r [] = []" by (simp add: selectedTextsOf_def)
    show ?thesis
      using assms Some True ne e by (auto simp: findIntersectingBlocks_run Let_def)
  qed
qed

theorem no_selection_leaves_text_unset_witness:
  "intersectingElements (snd (findIntersectingBlocks exampleState ''M 500 500 L 600 600'' exampleState)) = []
   \<and> selectedText (snd (findIntersectingBlocks exampleState ''M 500 500 L 600 600'' exampleState))
        = selectedText exampleState"
proof -
  have l: "2 \<le> length (parseSvgPath ''M 500 500 L 600 600'')"
    by (simp add: parse_defs)
  show ?thesis
    using no_selection_leaves_text_unset [OF refl, of exampleState exampleResult
        "''M 500 500 L 600 600''" exampleState]
      l exampleState_reads(1) exampleSelection(2)
    by simp
qed

section \<open>One lasso path per page\<close>

text \<open>
  Claim C7. After any sequence of events there is at most one saved path on every page,
  and every single event keeps it so. Finishing a stroke on the current page leaves
  exactly the new path on that page and the paths of every other page as they were;
  clearing the current drawing leaves no path on the current page and the paths of every
  other page as they were.
\<close>

theorem one_lasso_path_per_page:
  "length (pathsOnPage p
      (paths (app (run events (initialSystem documentPath windowWidth windowHeight))))) \<le> 1
   \<and> (onePerPage (paths (app sys)) \<longrightarrow> onePerPage (paths (app (step e sys))))
   \<and> (isDrawingEnabled s \<and> isDrawing s \<and> currentPath s \<noteq> [] \<and> currentPage s \<noteq> NaN
        \<longrightarrow> pathsOnPage (currentPage s) (paths (handleTouchEnd s))
              = [\<lparr> path = currentPath s, page = currentPage s \<rparr>])
   \<and> (q \<noteq> currentPage s
        \<longrightarrow> pathsOnPage q (paths (handleTouchEnd s)) = pathsOnPage q (paths s))
   \<and> pathsOnPage (currentPage s) (paths (clearCurrentDrawing s)) = []
   \<and> (q \<noteq> currentPage s
        \<longrightarrow> pathsOnPage q (paths (clearCurrentDrawing s)) = pathsOnPage q (paths s))"
proof -
  have "onePerPage (paths (app (initialSystem documentPath windowWidth windowHeight)))"
    by (simp add: initialSystem_def initialState_def onePerPage_Nil)
  then have "onePerPage (paths (app (run events (initialSystem documentPath windowWidth windowHeight))))"
    by (rule run_onePerPage)
  then have a: "length (pathsOnPage p
      (paths (app (run events (initialSystem documentPath windowWidth windowHeight))))) \<le> 1"
    by (simp add: onePerPage_all)
  have nan: "pathsOnPage NaN ps = []" for ps
    by (simp add: pathsOnPage_def js_eq_def)
  have c: "pathsOnPage (currentPage s) (paths (clearCurrentDrawing s)) = []"
    by (cases "currentPage s = NaN")
       (simp_all add: clearCurrentDrawing_def pathsOnPage_removed nan js_eq_def)
  show ?thesis
    using a c
    by (auto simp: step_onePerPage handleTouchEnd_paths pathsOnPage_replaced pathsOnPage_removed
        clearCurrentDrawing_def js_eq_def)
qed

theorem one_lasso_path_per_page_witness:
  "length (pathsOnPage (Fin 2) (paths strokeState)) \<le> 1
   \<and> onePerPage (paths strokeState)
   \<and> onePerPage (paths (handleTouchEnd strokeState))
   \<and> pathsOnPage (Fin 2) (paths (handleTouchEnd strokeState))
       = [\<lparr> path = ''M 5 5 L 50 50'', page = Fin 2 \<rparr>]
   \<and> pathsOnPage (Fin 1) (paths (handleTouchEnd strokeState))
       = [\<lparr> path = ''M 0 0 L 100 20'', page = Fin 1 \<rparr>]
   \<and> pathsOnPage (Fin 2) (paths (clearCurrentDrawing strokeState)) = []
   \<and> pathsOnPage (Fin 1) (paths (clearCurrentDrawing strokeState))
       = [\<lparr> path = ''M 0 0 L 100 20'', page = Fin 1 \<rparr>]"
proof -
  let ?sys = "run twoPageStroke (initialSystem ''/a.pdf'' (Fin 400) (Fin 800))"
  have one: "onePerPage (paths strokeState)"
    by (simp add: strokeState_fields onePerPage_def pathsOnPage_def js_eq_def)
  have s: "app (step TouchEnd ?sys) = handleTouchEnd strokeState" "app ?sys = strokeState"
    by (simp_all add: strokeState_def)
  show ?thesis
    using one one_lasso_path_per_page [of "Fin 2" twoPageStroke "''/a.pdf''" "Fin 400" "Fin 800"
        ?sys TouchEnd strokeState "Fin 1"]
    unfolding s
    by (simp add: strokeState_fields strokeState_def [symmetric] pathsOnPage_def js_eq_def)
qed

section \<open>One analysis cycle at a time\<close>

text \<open>
  Claim C8. A call of \<^verbatim>\<open>performOCR\<close> while \<^verbatim>\<open>isProcessing\<close> is set changes nothing and
  starts nothing, and so does a call for a page already analyzed while lasso mode is off.
  After any sequence of events at most one analysis call is waiting, and every single
  event keeps it so.
\<close>

theorem at_most_one_analysis_cycle:
  "(isProcessing closure \<longrightarrow> performOCR closure viewMounted s = (s, None))
   \<and> (array_includes (analyzedPages closure) (currentPage closure) \<and> \<not> isDrawingEnabled closure
        \<longrightarrow> performOCR closure viewMounted s = (s, None))
   \<and> length (cycles (run events (initialSystem documentPath windowWidth windowHeight))) \<le> 1
   \<and> (oneCycle sys \<longrightarrow> oneCycle (step e sys))"
proof -
  have "oneCycle (initialSystem documentPath windowWidth windowHeight)"
    by (simp add: oneCycle_def initialSystem_def)
  then have "oneCycle (run events (initialSystem documentPath windowWidth windowHeight))"
    by (rule run_oneCycle)
  then have r: "length (cycles (run events (initialSystem documentPath windowWidth windowHeight))) \<le> 1"
    by (simp add: oneCycle_def)
  have i: "oneCycle sys \<longrightarrow> oneCycle (step e sys)"
    by (simp add: step_oneCycle)
  show ?thesis
    using r i by (simp add: performOCR_def)
qed

theorem at_most_one_analysis_cycle_witness:
  "isProcessing (app (step (ToggleDrawingMode True) (initialSystem ''/a.pdf'' (Fin 400) (Fin 800))))
   \<and> oneCycle (step (ToggleDrawingMode True) (initialSystem ''/a.pdf'' (Fin 400) (Fin 800)))
   \<and> length (cycles (step (ToggleDrawingMode True) (initialSystem ''/a.pdf'' (Fin 400) (Fin 800)))) = 1
   \<and> step (AnalysisEffect True) (step (ToggleDrawingMode True) (initialSystem ''/a.pdf'' (Fin 400) (Fin 800)))
       = step (ToggleDrawingMode True) (initialSystem ''/a.pdf'' (Fin 400) (Fin 800))
   \<and> performOCR analyzedState True analyzedState = (analyzedState, None)"
proof -
  let ?sys = "step (ToggleDrawingMode True) (initialSystem ''/a.pdf'' (Fin 400) (Fin 800))"
  have p: "isProcessing (app ?sys)" and c: "length (cycles ?sys) = 1"
    by (simp_all add: initialSystem_def initialState_def started_def toggleDrawingMode_def
        performOCR_def array_includes_def Let_def)
  have o: "oneCycle ?sys"
    using at_most_one_analysis_cycle [of exampleState True exampleState "[]" "[]" "Fin 0" "Fin 0"
        "initialSystem ''/a.pdf'' (Fin 400) (Fin 800)" "ToggleDrawingMode True"]
    by (simp add: oneCycle_def initialSystem_def)
  have "performOCR (app ?sys) True (app ?sys) = (app ?sys, None)"
    using p at_most_one_analysis_cycle [of "app ?sys" True "app ?sys"] by simp
  then have e: "step (AnalysisEffect True) ?sys = ?sys"
    by (simp add: analysisEffect_def started_def)
  have a: "performOCR analyzedState True analyzedState = (analyzedState, None)"
    using at_most_one_analysis_cycle [of analyzedState True analyzedState]
    by (simp add: analyzedState_fields array_includes_def)
  show ?thesis
    using p o c e a by simp
qed

section \<open>Restoring the last viewed page\<close>

text \<open>
  Claim C9. With a page persisted, the page is restored exactly when the persisted path
  equals the path of the document being opened: the current and the initial page become
  the persisted page then, and the state is left alone when the persisted path is
  another one or there is none.
  With \<open>/a.pdf\<close> and page 5 persisted, opening \<open>/a.pdf\<close> gives page 5 and opening
  \<open>/b.pdf\<close> leaves the viewer on page 1 (the witness).
\<close>

theorem restore_only_for_same_document:
  assumes "lastViewed \<noteq> []"
  shows "(saved = documentPath \<longrightarrow>
            loadLastViewedPage documentPath (Fulfilled (Some saved)) (Fulfilled (Some lastViewed)) s
              = s\<lparr> currentPage := parseInt10 lastViewed, initialPage := parseInt10 lastViewed \<rparr>)
         \<and> (saved \<noteq> documentPath \<longrightarrow>
            loadLastViewedPage documentPath (Fulfilled (Some saved)) (Fulfilled (Some lastViewed)) s
              = s)
         \<and> loadLastViewedPage documentPath (Fulfilled None) (Fulfilled (Some lastViewed)) s = s"
  using assms by (simp add: loadLastViewedPage_def Let_def)

theorem restore_only_for_same_document_witness:
  "currentPage (app (step (LastViewedPageLoaded (Fulfilled (Some ''/a.pdf'')) (Fulfilled (Some ''5'')))
       (initialSystem ''/a.pdf'' (Fin 400) (Fin 800)))) = Fin 5
   \<and> initialPage (app (step (LastViewedPageLoaded (Fulfilled (Some ''/a.pdf'')) (Fulfilled (Some ''5'')))
       (initialSystem ''/a.pdf'' (Fin 400) (Fin 800)))) = Fin 5
   \<and> currentPage (app (step (LastViewedPageLoaded (Fulfilled (Some ''/a.pdf'')) (Fulfilled (Some ''5'')))
       (initialSystem ''/b.pdf'' (Fin 400) (Fin 800)))) = Fin 1
   \<and> initialPage (app (step (LastViewedPageLoaded (Fulfilled (Some ''/a.pdf'')) (Fulfilled (Some ''5'')))
       (initialSystem ''/b.pdf'' (Fin 400) (Fin 800)))) = Fin 1"
proof -
  have p: "parseInt10 ''5'' = Fin 5"
    by (simp add: parse_defs)
  have n: "''5'' \<noteq> []"
    by simp
  show ?thesis
    using restore_only_for_same_document [OF n, of "''/a.pdf''" "''/a.pdf''" "initialState (Fin 400) (Fin 800)"]
      restore_only_for_same_document [OF n, of "''/a.pdf''" "''/b.pdf''" "initialState (Fin 400) (Fin 800)"]
    by (simp add: p initialSystem_def initialState_def)
qed

section \<open>Words of zero area\<close>

text \<open>
  Claim C10. A word whose mapped frame has width 0 or height 0 is not selected, whatever
  the lasso: the overlap is the early 0 or NaN, and neither is at least 40. In a run
  of the engine such a word is not among the stored elements.
\<close>

theorem zero_area_word_never_selected:
  assumes "element_frame element = Some frame"
    and "rect_width (mappedFrame layout img frame) = Fin 0
         \<or> rect_height (mappedFrame layout img frame) = Fin 0"
  shows "\<not> elementSelected layout img pathPoints element
    \<and> (ocrResult closure = Some result \<and> 2 \<le> length (parseSvgPath pathString)
        \<and> viewLayout closure = layout \<and> imageSize closure = img \<and> wordAt result e = element
        \<longrightarrow> e \<notin> set (intersectingElements (snd (findIntersectingBlocks closure pathString s))))"
proof -
  have no: "\<not> elementSelected layout img pts element" for pts
    using assms zero_width_overlap zero_height_overlap
    by (auto simp: elementSelected_def Let_def)
  then show ?thesis
    by (auto simp: findIntersectingBlocks_run Let_def resultElements_iff)
qed

theorem zero_area_word_never_selected_witness:
  "rect_width (mappedFrame (viewLayout exampleState) (imageSize exampleState) (frameOfSize 10 0 0 20)) = Fin 0
   \<and> firstWord \<notin> set (intersectingElements
        (snd (findIntersectingBlocks (exampleState\<lparr> ocrResult := Some thinResult \<rparr>)
                ''M 0 0 L 100 20'' exampleState)))"
proof -
  let ?m = "mappedFrame (viewLayout exampleState) (imageSize exampleState) (frameOfSize 10 0 0 20)"
  have w: "rect_width ?m = Fin 0"
    by (simp add: mappedFrame_def normalizeFrame_def frameOfSize_def js_or_def truthy_def
        mapCoordinates_def exampleState_def initialState_def Let_def)
  have f: "element_frame (wordAt thinResult firstWord) = Some (frameOfSize 10 0 0 20)"
    by (simp add: wordAt_def thinResult_def firstWord_def)
  have l: "2 \<le> length (parseSvgPath ''M 0 0 L 100 20'')"
    by (simp add: parse_defs)
  show ?thesis
    using w zero_area_word_never_selected [OF f disjI1 [OF w], of "[]"
        "exampleState\<lparr> ocrResult := Some thinResult \<rparr>" thinResult "''M 0 0 L 100 20''" firstWord
        exampleState] l
    by simp
qed

end
